theory Spec2Isabelle
  imports Complex_Main
begin

section \<open>JavaScript strings and values\<close>

text \<open>
  Strings are lists of 8-bit code units: the model covers the strings whose code units
  lie in the Latin-1 range, on which \<open>length\<close>, \<open>trim\<close>, \<open>toLowerCase\<close> and
  \<open>includes\<close> below agree with the JavaScript built-ins of the same names.
\<close>

definition isWhiteSpace :: "char \<Rightarrow> bool" where
  "isWhiteSpace c = (of_char c \<in> set [9, 10, 11, 12, 13, 32, 160 :: nat])"

definition trim :: "string \<Rightarrow> string" where
  "trim s = rev (dropWhile isWhiteSpace (rev (dropWhile isWhiteSpace s)))"

definition toLowerCase_char :: "char \<Rightarrow> char" where
  "toLowerCase_char c =
     (let n = (of_char c :: nat)
      in if (65 \<le> n \<and> n \<le> 90) \<or> (192 \<le> n \<and> n \<le> 214) \<or> (216 \<le> n \<and> n \<le> 222)
         then char_of (n + 32) else c)"

definition toLowerCase :: "string \<Rightarrow> string" where
  "toLowerCase s = map toLowerCase_char s"

fun startsWith :: "string \<Rightarrow> string \<Rightarrow> bool" where
  "startsWith s [] = True"
| "startsWith [] (k # ks) = False"
| "startsWith (c # cs) (k # ks) = (c = k \<and> startsWith cs ks)"

fun str_includes :: "string \<Rightarrow> string \<Rightarrow> bool" where
  "str_includes [] k = (k = [])"
| "str_includes (c # cs) k = (startsWith (c # cs) k \<or> str_includes cs k)"

definition isDigit :: "char \<Rightarrow> bool" where
  "isDigit c = (c \<in> set ''0123456789'')"

text \<open>The regular expression \<^verbatim>\<open>/^\d+$/\<close>: one or more decimal digits and nothing else.\<close>

fun test_digits :: "string \<Rightarrow> bool" where
  "test_digits [] = False"
| "test_digits [c] = isDigit c"
| "test_digits (c # cs) = (isDigit c \<and> test_digits cs)"

definition digit_char :: "nat \<Rightarrow> char" where
  "digit_char d = char_of (48 + d)"

text \<open>The decimal numeral a template literal prints for a non-negative integer.\<close>

function string_of_nat :: "nat \<Rightarrow> string" where
  "string_of_nat n =
     (if n < 10 then [digit_char n] else string_of_nat (n div 10) @ [digit_char (n mod 10)])"
  by pat_completeness auto
termination
  by (relation "measure id") auto

declare string_of_nat.simps [simp del]

text \<open>
  The JavaScript values the program handles: what \<open>JSON.parse\<close> produces, and
  \<open>undefined\<close> for a missing property. An object is the list of its properties
  (names distinct). Numbers are only copied and tested against zero.
\<close>

datatype jsval =
    Undefined
  | Null
  | Bool bool
  | Num real
  | Str string
  | Arr "jsval list"
  | Obj "(string \<times> jsval) list"

text \<open>What a \<open>throw\<close> or a rejected promise carries, as far as the handlers look at it.\<close>

datatype thrown =
    TypeError string
  | ErrorNamed string string
  | NotAnError

fun truthy :: "jsval \<Rightarrow> bool" where
  "truthy Undefined = False"
| "truthy Null = False"
| "truthy (Bool b) = b"
| "truthy (Num x) = (x \<noteq> 0)"
| "truthy (Str s) = (s \<noteq> [])"
| "truthy (Arr xs) = True"
| "truthy (Obj ps) = True"

text \<open>\<open>a || b\<close> and \<open>a ?? b\<close>.\<close>

definition js_or :: "jsval \<Rightarrow> jsval \<Rightarrow> jsval" where
  "js_or a b = (if truthy a then a else b)"

definition nullish :: "jsval \<Rightarrow> jsval \<Rightarrow> jsval" where
  "nullish a b = (if a = Undefined \<or> a = Null then b else a)"

text \<open>
  \<open>v.k\<close> and \<open>v?.k\<close>, for the property names of this program (none of them is a
  built-in property of a string, an array or \<open>Object.prototype\<close>).
\<close>

fun member :: "jsval \<Rightarrow> string \<Rightarrow> thrown + jsval" where
  "member Undefined k = Inl (TypeError ''Cannot read properties of undefined'')"
| "member Null k = Inl (TypeError ''Cannot read properties of null'')"
| "member (Obj ps) k = Inr (case map_of ps k of None \<Rightarrow> Undefined | Some v \<Rightarrow> v)"
| "member v k = Inr Undefined"

definition opt_member :: "jsval \<Rightarrow> string \<Rightarrow> jsval" where
  "opt_member v k = (case member v k of Inl e \<Rightarrow> Undefined | Inr x \<Rightarrow> x)"

section \<open>The network\<close>

record request =
  url_path :: string
  params :: "(string \<times> string) list"

text \<open>
  A \<open>Response\<close> is what the program observes of it: the status, the status text, the
  \<open>content-type\<close> header, and what \<open>text()\<close> and \<open>json()\<close> settle with.
\<close>

record response =
  status :: nat
  statusText :: string
  content_type :: "string option"
  text_of :: "thrown + string"
  json_of :: "thrown + jsval"

definition ok :: "response \<Rightarrow> bool" where
  "ok r = (200 \<le> status r \<and> status r \<le> 299)"

type_synonym fetch = "request \<Rightarrow> thrown + response"

datatype effect = Fetch request | ConsoleError string

definition MT5_API_BASE :: string where
  "MT5_API_BASE = ''/api''"

section \<open>services/mt5Api.ts\<close>

record LoginCredentials =
  username :: string
  password :: string
  server :: string

record LoginResponse =
  success :: bool
  token :: "string option"
  error :: "jsval option"

definition validateToken :: "string \<Rightarrow> bool" where
  "validateToken t =
     (if t = [] \<or> length t < 10 then False
      else let errorKeywords = [''error'', ''invalid'', ''failed'', ''denied'', ''unauthorized''];
               lowerToken = toLowerCase t
           in \<not> list_ex (\<lambda>keyword. str_includes lowerToken keyword) errorKeywords)"

definition validateCredentials :: "LoginCredentials \<Rightarrow> string option" where
  "validateCredentials credentials =
     (if trim (username credentials) = [] then Some ''Username is required''
      else if trim (password credentials) = [] then Some ''Password is required''
      else if trim (server credentials) = [] then Some ''Server is required''
      else if \<not> test_digits (trim (username credentials))
        then Some ''Username must be a valid account number (numeric)''
      else None)"

definition network_error_text :: "response \<Rightarrow> jsval" where
  "network_error_text r =
     Str (''Network Error: '' @ string_of_nat (status r) @ '' '' @ statusText r)"

definition isJsonContent :: "response \<Rightarrow> bool" where
  "isJsonContent r =
     (case content_type r of None \<Rightarrow> False
      | Some contentType \<Rightarrow> str_includes contentType ''application/json'')"

definition handleApiError :: "response \<Rightarrow> jsval" where
  "handleApiError r =
     (if isJsonContent r
      then (case json_of r of
              Inl e \<Rightarrow> network_error_text r
            | Inr errorData \<Rightarrow>
                (case member errorData ''message'' of
                   Inl e \<Rightarrow> network_error_text r
                 | Inr m \<Rightarrow>
                     if truthy m then m
                     else (case member errorData ''error'' of
                             Inl e \<Rightarrow> network_error_text r
                           | Inr er \<Rightarrow>
                               js_or er (Str (''API Error: '' @ string_of_nat (status r))))))
      else (case text_of r of
              Inl e \<Rightarrow> network_error_text r
            | Inr errorText \<Rightarrow>
                js_or (Str errorText) (Str (''HTTP Error: '' @ string_of_nat (status r)))))"

definition failure :: "jsval \<Rightarrow> LoginResponse" where
  "failure m = \<lparr>success = False, token = None, error = Some m\<rparr>"

text \<open>The \<open>catch\<close> block of \<open>loginToMT5\<close>.\<close>

fun login_catch :: "thrown \<Rightarrow> LoginResponse" where
  "login_catch (TypeError m) =
     failure (Str ''Network connection failed. Please check your internet connection.'')"
| "login_catch (ErrorNamed n m) =
     (if n = ''AbortError'' then failure (Str ''Request timeout. Please try again.'')
      else failure (Str m))"
| "login_catch NotAnError = failure (Str ''An unexpected error occurred'')"

definition login_request :: "LoginCredentials \<Rightarrow> request" where
  "login_request credentials =
     \<lparr>url_path = MT5_API_BASE @ ''/ConnectEx'',
      params = [(''user'', trim (username credentials)),
                (''password'', password credentials),
                (''server'', trim (server credentials))]\<rparr>"

text \<open>
  The \<open>try\<close> block of \<open>loginToMT5\<close> after the validation: the request, and
  what becomes of its response (\<open>Inl\<close> when the block throws).
\<close>

definition login_exchange :: "fetch \<Rightarrow> LoginCredentials \<Rightarrow> effect list \<times> (thrown + LoginResponse)" where
  "login_exchange fetch credentials =
     ([Fetch (login_request credentials)],
      (case fetch (login_request credentials) of
         Inl e \<Rightarrow> Inl e
       | Inr r \<Rightarrow>
           if ok r \<and> status r = 200 then
             (case text_of r of
                Inl e \<Rightarrow> Inl e
              | Inr t \<Rightarrow>
                  if validateToken t
                  then Inr \<lparr>success = True, token = Some (trim t), error = None\<rparr>
                  else Inr (failure (Str ''Invalid authentication token received'')))
           else Inr (failure (handleApiError r))))"

text \<open>
  The whole \<open>try\<close> block: \<open>if (validationError)\<close> holds of a non-empty string.
\<close>

definition login_try :: "fetch \<Rightarrow> LoginCredentials \<Rightarrow> effect list \<times> (thrown + LoginResponse)" where
  "login_try fetch credentials =
     (case validateCredentials credentials of
        None \<Rightarrow> login_exchange fetch credentials
      | Some validationError \<Rightarrow>
          if validationError \<noteq> [] then ([], Inr (failure (Str validationError)))
          else login_exchange fetch credentials)"

definition loginToMT5 :: "fetch \<Rightarrow> LoginCredentials \<Rightarrow> effect list \<times> (thrown + LoginResponse)" where
  "loginToMT5 fetch credentials =
     (case login_try fetch credentials of
        (effs, Inl e) \<Rightarrow> (effs, Inr (login_catch e))
      | (effs, Inr res) \<Rightarrow> (effs, Inr res))"

record AccountInfo =
  balance :: jsval
  equity :: jsval
  margin :: jsval
  freeMargin :: jsval
  marginLevel :: jsval
  currency :: jsval
  accountNumber :: jsval
  accountName :: jsval
  serverName :: jsval
  leverage :: jsval
  profit :: jsval

definition defaultAccountInfo :: AccountInfo where
  "defaultAccountInfo =
     \<lparr>balance = Num 0, equity = Num 0, margin = Num 0, freeMargin = Num 0,
      marginLevel = Num 0, currency = Str ''USD'', accountNumber = Str ''N/A'',
      accountName = Str ''N/A'', serverName = Str ''N/A'', leverage = Num 0,
      profit = Num 0\<rparr>"

definition summary_request :: "string \<Rightarrow> request" where
  "summary_request t = \<lparr>url_path = MT5_API_BASE @ ''/AccountSummary'', params = [(''id'', t)]\<rparr>"

definition details_request :: "string \<Rightarrow> request" where
  "details_request t = \<lparr>url_path = MT5_API_BASE @ ''/AccountDetails'', params = [(''id'', t)]\<rparr>"

text \<open>The object literal that \<open>getAccountInfo\<close> returns.\<close>

definition combine :: "jsval \<Rightarrow> jsval \<Rightarrow> AccountInfo" where
  "combine summaryData detailsData =
     \<lparr>balance = nullish (opt_member summaryData ''balance'') (balance defaultAccountInfo),
      equity = nullish (opt_member summaryData ''equity'') (equity defaultAccountInfo),
      margin = nullish (opt_member summaryData ''margin'') (margin defaultAccountInfo),
      freeMargin = nullish (opt_member summaryData ''freeMargin'') (freeMargin defaultAccountInfo),
      marginLevel =
        nullish (opt_member summaryData ''marginLevel'') (marginLevel defaultAccountInfo),
      currency = nullish (opt_member summaryData ''currency'') (currency defaultAccountInfo),
      accountNumber =
        nullish (opt_member detailsData ''accountNumber'') (accountNumber defaultAccountInfo),
      accountName =
        nullish (opt_member detailsData ''accountName'') (accountName defaultAccountInfo),
      serverName = nullish (opt_member detailsData ''serverName'') (serverName defaultAccountInfo),
      leverage = nullish (opt_member detailsData ''leverage'') (leverage defaultAccountInfo),
      profit = nullish (opt_member summaryData ''profit'') (profit defaultAccountInfo)\<rparr>"

text \<open>
  The \<open>try\<close> block of \<open>getAccountInfo\<close>. Both requests are issued before either is
  awaited; \<open>Promise.all\<close> rejects as soon as one of them rejects, and the block then
  throws (which of two rejections it throws does not matter to the handler).
\<close>

definition getAccountInfo_try :: "fetch \<Rightarrow> string \<Rightarrow> effect list \<times> (thrown + AccountInfo)" where
  "getAccountInfo_try fetch t =
     (let issued = [Fetch (summary_request t), Fetch (details_request t)]
      in case fetch (summary_request t) of
           Inl e \<Rightarrow> (issued, Inl e)
         | Inr summaryResponse \<Rightarrow>
            (case fetch (details_request t) of
               Inl e \<Rightarrow> (issued, Inl e)
             | Inr detailsResponse \<Rightarrow>
                 let (effs1, summaryData) =
                       (if ok summaryResponse then
                          (case json_of summaryResponse of
                             Inr d \<Rightarrow> ([], d)
                           | Inl e \<Rightarrow> ([ConsoleError ''Failed to parse account summary:''], Obj []))
                        else ([ConsoleError ''Account summary request failed:''], Obj []));
                     (effs2, detailsData) =
                       (if ok detailsResponse then
                          (case json_of detailsResponse of
                             Inr d \<Rightarrow> ([], d)
                           | Inl e \<Rightarrow> ([ConsoleError ''Failed to parse account details:''], Obj []))
                        else ([ConsoleError ''Account details request failed:''], Obj []))
                 in (issued @ effs1 @ effs2, Inr (combine summaryData detailsData))))"

text \<open>
  \<open>getAccountInfo\<close>: the effects it has, and what its promise settles with
  (\<open>Inl\<close> would be a rejection).
\<close>

definition getAccountInfo :: "fetch \<Rightarrow> string \<Rightarrow> effect list \<times> (thrown + AccountInfo)" where
  "getAccountInfo fetch t =
     (if trim t = [] then
        ([ConsoleError ''No authentication token provided''], Inr defaultAccountInfo)
      else
        (case getAccountInfo_try fetch t of
           (effs, Inl e) \<Rightarrow>
             (effs @ [ConsoleError ''Error fetching account information:''],
              Inr defaultAccountInfo)
         | (effs, Inr info) \<Rightarrow> (effs, Inr info)))"

text \<open>A snapshot is fully populated when no field is \<open>undefined\<close> or \<open>null\<close>.\<close>

definition defined :: "jsval \<Rightarrow> bool" where
  "defined v = (v \<noteq> Undefined \<and> v \<noteq> Null)"

definition populated :: "AccountInfo \<Rightarrow> bool" where
  "populated a =
     (defined (balance a) \<and> defined (equity a) \<and> defined (margin a) \<and>
      defined (freeMargin a) \<and> defined (marginLevel a) \<and> defined (currency a) \<and>
      defined (accountNumber a) \<and> defined (accountName a) \<and> defined (serverName a) \<and>
      defined (leverage a) \<and> defined (profit a))"

text \<open>
  What a source provides for a field: the value of that property in the parsed body of a
  successful response, when the body is an object and the value is not \<open>null\<close>.
\<close>

definition provided :: "response \<Rightarrow> string \<Rightarrow> jsval option" where
  "provided r k =
     (if ok r then
        (case json_of r of
           Inr (Obj ps) \<Rightarrow>
             (case map_of ps k of
                None \<Rightarrow> None
              | Some v \<Rightarrow> if defined v then Some v else None)
         | _ \<Rightarrow> None)
      else None)"

definition or_default :: "jsval option \<Rightarrow> jsval \<Rightarrow> jsval" where
  "or_default v d = (case v of None \<Rightarrow> d | Some x \<Rightarrow> x)"

section \<open>components/Dashboard.tsx\<close>

text \<open>
  The component as a state machine. The state holds the React state variables, the two
  refs, and what the environment keeps for the component: the registered
  \<open>visibilitychange\<close> handler, the calls of \<open>fetchAccountInfo\<close> that wait for
  \<open>getAccountInfo\<close>, and whether the component has been unmounted. Two fields are
  there for the statements only: \<open>initiated\<close> numbers the calls of \<open>fetchAccountInfo\<close>
  in the order they are made, and \<open>published\<close> lists the numbers of the calls whose
  snapshot was stored with \<open>setAccountInfo\<close>, in the order it happened.

  A closure sees the value \<open>isRealTimeActive\<close> had in the render that created it, so
  the armed interval and the registered handler each carry that value. Timestamps are
  natural numbers. The \<open>token\<close> prop does not change while the component is mounted.
\<close>

record timer =
  delay :: nat
  timer_isRealTimeActive :: bool

record Dashboard =
  accountInfo :: "AccountInfo option"
  isLoading :: bool
  lastUpdated :: nat
  isConnected :: bool
  updateCount :: nat
  isRealTimeActive :: bool
  intervalRef :: "timer option"
  mountedRef :: bool
  listener :: "bool option"
  in_flight :: "(nat \<times> bool) list"
  initiated :: nat
  published :: "nat list"
  unmounted :: bool

text \<open>\<open>fetchAccountInfo(showLoading)\<close> up to its \<open>await\<close>.\<close>

definition fetchAccountInfo_call :: "bool \<Rightarrow> Dashboard \<Rightarrow> Dashboard" where
  "fetchAccountInfo_call showLoading s =
     s\<lparr>isLoading := (if showLoading then True else isLoading s),
       in_flight := in_flight s @ [(initiated s, showLoading)],
       initiated := Suc (initiated s)\<rparr>"

text \<open>
  \<open>fetchAccountInfo\<close> from its \<open>await\<close> on, for call number \<open>n\<close>, when
  \<open>getAccountInfo\<close> has settled with \<open>outcome\<close> at time \<open>now\<close>.
\<close>

definition fetchAccountInfo_resume ::
    "nat \<Rightarrow> bool \<Rightarrow> thrown + AccountInfo \<Rightarrow> nat \<Rightarrow> Dashboard \<Rightarrow> Dashboard" where
  "fetchAccountInfo_resume n showLoading outcome now s =
     (let s1 = (case outcome of
                  Inr info \<Rightarrow>
                    if mountedRef s
                    then s\<lparr>accountInfo := Some info, lastUpdated := now, isConnected := True,
                           updateCount := updateCount s + 1,
                           published := published s @ [n]\<rparr>
                    else s
                | Inl e \<Rightarrow> if mountedRef s then s\<lparr>isConnected := False\<rparr> else s)
      in if mountedRef s1 \<and> showLoading then s1\<lparr>isLoading := False\<rparr> else s1)"

text \<open>
  \<open>startRealTimeUpdates\<close> of a render in which \<open>isRealTimeActive\<close> was \<open>active\<close>:
  the interval in \<open>intervalRef\<close>, if any, is cleared and a new one takes its place.
\<close>

definition startRealTimeUpdates :: "bool \<Rightarrow> Dashboard \<Rightarrow> Dashboard" where
  "startRealTimeUpdates active s =
     s\<lparr>intervalRef := Some \<lparr>delay = 1000, timer_isRealTimeActive = active\<rparr>\<rparr>"

definition stopRealTimeUpdates :: "Dashboard \<Rightarrow> Dashboard" where
  "stopRealTimeUpdates s = s\<lparr>intervalRef := None\<rparr>"

text \<open>The callback of the interval; a cleared interval does not call back.\<close>

definition interval_callback :: "Dashboard \<Rightarrow> Dashboard" where
  "interval_callback s =
     (case intervalRef s of
        None \<Rightarrow> s
      | Some tm \<Rightarrow>
          if mountedRef s \<and> timer_isRealTimeActive tm then fetchAccountInfo_call False s
          else s)"

text \<open>The mount effect and its cleanup, the visibility effect and its cleanup.\<close>

definition mount_effect :: "Dashboard \<Rightarrow> Dashboard" where
  "mount_effect s =
     (let s1 = fetchAccountInfo_call True (s\<lparr>mountedRef := True\<rparr>)
      in if isRealTimeActive s1 then startRealTimeUpdates (isRealTimeActive s1) s1 else s1)"

definition mount_cleanup :: "Dashboard \<Rightarrow> Dashboard" where
  "mount_cleanup s = stopRealTimeUpdates (s\<lparr>mountedRef := False\<rparr>)"

definition visibility_effect :: "Dashboard \<Rightarrow> Dashboard" where
  "visibility_effect s = s\<lparr>listener := Some (isRealTimeActive s)\<rparr>"

definition visibility_cleanup :: "Dashboard \<Rightarrow> Dashboard" where
  "visibility_cleanup s = s\<lparr>listener := None\<rparr>"

definition handleVisibilityChange :: "bool \<Rightarrow> bool \<Rightarrow> Dashboard \<Rightarrow> Dashboard" where
  "handleVisibilityChange active hidden s =
     (if hidden then stopRealTimeUpdates s
      else if active then startRealTimeUpdates active s
      else s)"

text \<open>
  A render that follows a change of \<open>isRealTimeActive\<close>: the dependencies of both
  effects have changed, so both cleanups run, then both effects.
\<close>

definition rerender :: "Dashboard \<Rightarrow> Dashboard" where
  "rerender s = visibility_effect (mount_effect (visibility_cleanup (mount_cleanup s)))"

text \<open>
  \<open>toggleRealTime\<close>: the updater starts or stops the interval through the callbacks of
  the current render (which saw the previous value), and the new value is rendered.
\<close>

definition toggleRealTime :: "Dashboard \<Rightarrow> Dashboard" where
  "toggleRealTime s =
     (let prev = isRealTimeActive s;
          newState = (\<not> prev);
          s1 = (if newState then startRealTimeUpdates prev s else stopRealTimeUpdates s)
      in rerender (s1\<lparr>isRealTimeActive := newState\<rparr>))"

text \<open>The first render at time \<open>now\<close>, and the state once its effects have run.\<close>

definition first_render :: "nat \<Rightarrow> Dashboard" where
  "first_render now =
     \<lparr>accountInfo = None, isLoading = True, lastUpdated = now, isConnected = True,
      updateCount = 0, isRealTimeActive = True, intervalRef = None, mountedRef = True,
      listener = None, in_flight = [], initiated = 0, published = [], unmounted = False\<rparr>"

definition mount :: "nat \<Rightarrow> Dashboard" where
  "mount now = visibility_effect (mount_effect (first_render now))"

text \<open>
  What can happen to a mounted component. The two buttons exist only once a snapshot is
  shown, and the refresh button is disabled while loading; after the unmount no button
  exists.
\<close>

datatype event =
    Unmount
  | Tick
  | Settled nat "thrown + AccountInfo" nat
  | VisibilityChange bool
  | ToggleClick
  | RefreshClick

fun step :: "event \<Rightarrow> Dashboard \<Rightarrow> Dashboard" where
  "step Unmount s = (visibility_cleanup (mount_cleanup s))\<lparr>unmounted := True\<rparr>"
| "step Tick s = interval_callback s"
| "step (Settled n outcome now) s =
     (case map_of (in_flight s) n of
        None \<Rightarrow> s
      | Some showLoading \<Rightarrow>
          fetchAccountInfo_resume n showLoading outcome now
            (s\<lparr>in_flight := filter (\<lambda>p. fst p \<noteq> n) (in_flight s)\<rparr>))"
| "step (VisibilityChange hidden) s =
     (case listener s of
        None \<Rightarrow> s
      | Some active \<Rightarrow> handleVisibilityChange active hidden s)"
| "step ToggleClick s =
     (if unmounted s \<or> accountInfo s = None then s else toggleRealTime s)"
| "step RefreshClick s =
     (if unmounted s \<or> accountInfo s = None \<or> isLoading s then s
      else fetchAccountInfo_call True s)"

fun run :: "event list \<Rightarrow> Dashboard \<Rightarrow> Dashboard" where
  "run [] s = s"
| "run (e # es) s = run es (step e s)"

text \<open>The state the scheduler shows to its consumer.\<close>

definition observable ::
    "Dashboard \<Rightarrow> AccountInfo option \<times> nat \<times> bool \<times> nat \<times> bool \<times> bool \<times> nat list" where
  "observable s =
     (accountInfo s, lastUpdated s, isConnected s, updateCount s, isLoading s,
      isRealTimeActive s, published s)"

text \<open>What holds of a mounted component between events, and of an unmounted one.\<close>

definition alive :: "Dashboard \<Rightarrow> bool" where
  "alive s =
     (mountedRef s \<and> listener s = Some (isRealTimeActive s) \<and>
      (intervalRef s = None \<or>
       (isRealTimeActive s \<and>
        intervalRef s = Some \<lparr>delay = 1000, timer_isRealTimeActive = True\<rparr>)))"

definition gone :: "Dashboard \<Rightarrow> bool" where
  "gone s = (unmounted s \<and> \<not> mountedRef s \<and> intervalRef s = None \<and> listener s = None)"

section \<open>Example inputs\<close>

text \<open>A network that answers every request with the same response, or fails every request.\<close>

definition answers :: "response \<Rightarrow> fetch" where
  "answers r = (\<lambda>q. Inr r)"

definition unreachable :: "thrown \<Rightarrow> fetch" where
  "unreachable e = (\<lambda>q. Inl e)"

definition text_response :: "nat \<Rightarrow> string \<Rightarrow> response" where
  "text_response st body =
     \<lparr>status = st, statusText = [], content_type = Some ''text/plain'',
      text_of = Inr body, json_of = Inl (ErrorNamed ''SyntaxError'' ''Unexpected token'')\<rparr>"

definition json_response :: "nat \<Rightarrow> string \<Rightarrow> jsval \<Rightarrow> response" where
  "json_response st body v =
     \<lparr>status = st, statusText = [], content_type = Some ''application/json'',
      text_of = Inr body, json_of = Inr v\<rparr>"

definition example_credentials :: LoginCredentials where
  "example_credentials =
     \<lparr>username = ''12345'', password = ''secret'', server = ''Demo-Server''\<rparr>"

text \<open>A network that answers each path of a table, and fails on any other.\<close>

definition route :: "(string \<times> (thrown + response)) list \<Rightarrow> fetch" where
  "route tbl = (\<lambda>q. case map_of tbl (url_path q) of
                       None \<Rightarrow> Inl (TypeError ''Failed to fetch'')
                     | Some x \<Rightarrow> x)"

text \<open>
  The summary source answers with a failure status, or is unreachable, while the details
  source answers with one field.
\<close>

definition summary_down :: fetch where
  "summary_down =
     route [(''/api/AccountSummary'', Inr (text_response 500 ''Internal Server Error'')),
            (''/api/AccountDetails'',
             Inr (json_response 200 ''{\"accountNumber\":\"12345\"}''
                    (Obj [(''accountNumber'', Str ''12345'')])))]"

definition summary_unreachable :: fetch where
  "summary_unreachable =
     route [(''/api/AccountSummary'', Inl (TypeError ''Failed to fetch'')),
            (''/api/AccountDetails'',
             Inr (json_response 200 ''{\"accountNumber\":\"12345\"}''
                    (Obj [(''accountNumber'', Str ''12345'')])))]"

text \<open>Two snapshots that differ in the balance.\<close>

definition older_snapshot :: AccountInfo where
  "older_snapshot = defaultAccountInfo\<lparr>balance := Num 100\<rparr>"

definition newer_snapshot :: AccountInfo where
  "newer_snapshot = defaultAccountInfo\<lparr>balance := Num 200\<rparr>"

section \<open>Credential validation and login\<close>

lemma test_digits_iff: "test_digits s = (s \<noteq> [] \<and> (\<forall>c \<in> set s. isDigit c))"
  by (induction s rule: test_digits.induct) auto

lemma validateCredentials_nonempty: "validateCredentials c = Some e \<Longrightarrow> e \<noteq> []"
  by (auto simp: validateCredentials_def split: if_splits)

lemma example_credentials_valid: "validateCredentials example_credentials = None"
  by (simp add: validateCredentials_def example_credentials_def trim_def isWhiteSpace_def
      isDigit_def)

text \<open>Once the credentials pass, exactly one request is issued and its response decides.\<close>

lemma login_proceeds:
  assumes "validateCredentials c = None" "fetch (login_request c) = Inr r"
  shows "loginToMT5 fetch c =
     ([Fetch (login_request c)],
      Inr (if status r = 200 then
             (case text_of r of Inl e \<Rightarrow> login_catch e
              | Inr t \<Rightarrow> if validateToken t
                  then \<lparr>success = True, token = Some (trim t), error = None\<rparr>
                  else failure (Str ''Invalid authentication token received''))
           else failure (handleApiError r)))"
  using assms
  by (auto simp: loginToMT5_def login_try_def login_exchange_def ok_def split: sum.splits)

lemma validateToken_plain: "validateToken ''a1b2c3d4e5f6''"
  by code_simp

lemma validateToken_message: "\<not> validateToken ''error: invalid user''"
  by code_simp

lemma trim_plain: "trim ''a1b2c3d4e5f6'' = ''a1b2c3d4e5f6''"
  by code_simp

text \<open>
  C1. When the login response has status 200 and its body is read as \<open>body\<close>, login
  runs the token validator on \<open>body\<close>: if it passes, the result is a success whose token
  is the trimmed body; if it fails, the result is the failure with the bad-token message.
\<close>

theorem login_status_200:
  assumes "validateCredentials credentials = None"
    and "fetch (login_request credentials) = Inr r"
    and "status r = 200"
    and "text_of r = Inr body"
  shows "snd (loginToMT5 fetch credentials) =
     Inr (if validateToken body
          then \<lparr>success = True, token = Some (trim body), error = None\<rparr>
          else \<lparr>success = False, token = None,
                error = Some (Str ''Invalid authentication token received'')\<rparr>)"
  using assms by (simp add: login_proceeds failure_def)

theorem login_status_200_witness:
  "snd (loginToMT5 (answers (text_response 200 ''a1b2c3d4e5f6'')) example_credentials) =
     Inr \<lparr>success = True, token = Some ''a1b2c3d4e5f6'', error = None\<rparr> \<and>
   snd (loginToMT5 (answers (text_response 200 ''error: invalid user'')) example_credentials) =
     Inr \<lparr>success = False, token = None,
          error = Some (Str ''Invalid authentication token received'')\<rparr>"
  using login_status_200 [of example_credentials "answers (text_response 200 ''a1b2c3d4e5f6'')"
      "text_response 200 ''a1b2c3d4e5f6''" "''a1b2c3d4e5f6''"]
    login_status_200 [of example_credentials "answers (text_response 200 ''error: invalid user'')"
      "text_response 200 ''error: invalid user''" "''error: invalid user''"]
  by (simp add: example_credentials_valid answers_def text_response_def validateToken_plain
      validateToken_message trim_plain)

text \<open>
  C4. Credential validation returns the first applicable error in the order username,
  password, server, and then the numeric-account-number error when the trimmed username
  is not made of decimal digits only; otherwise no error. Whenever it returns an error,
  login returns that error as a failure and issues no network request.
\<close>

theorem validateCredentials_order:
  "validateCredentials c =
     (if trim (username c) = [] then Some ''Username is required''
      else if trim (password c) = [] then Some ''Password is required''
      else if trim (server c) = [] then Some ''Server is required''
      else if \<exists>ch \<in> set (trim (username c)). ch \<notin> set ''0123456789''
        then Some ''Username must be a valid account number (numeric)''
      else None) \<and>
   (\<forall>e. validateCredentials c = Some e \<longrightarrow>
      loginToMT5 fetch c = ([], Inr \<lparr>success = False, token = None, error = Some (Str e)\<rparr>))"
proof
  show "validateCredentials c =
     (if trim (username c) = [] then Some ''Username is required''
      else if trim (password c) = [] then Some ''Password is required''
      else if trim (server c) = [] then Some ''Server is required''
      else if \<exists>ch \<in> set (trim (username c)). ch \<notin> set ''0123456789''
        then Some ''Username must be a valid account number (numeric)''
      else None)"
    unfolding validateCredentials_def test_digits_iff isDigit_def by auto
next
  show "\<forall>e. validateCredentials c = Some e \<longrightarrow>
      loginToMT5 fetch c = ([], Inr \<lparr>success = False, token = None, error = Some (Str e)\<rparr>)"
  proof (intro allI impI)
    fix e assume h: "validateCredentials c = Some e"
    then have "e \<noteq> []" by (rule validateCredentials_nonempty)
    with h show "loginToMT5 fetch c =
        ([], Inr \<lparr>success = False, token = None, error = Some (Str e)\<rparr>)"
      by (simp add: loginToMT5_def login_try_def failure_def)
  qed
qed

theorem validateCredentials_order_witness:
  "validateCredentials \<lparr>username = ''   '', password = [], server = []\<rparr> =
      Some ''Username is required'' \<and>
   loginToMT5 (answers (text_response 200 ''a1b2c3d4e5f6''))
      \<lparr>username = ''   '', password = [], server = []\<rparr> =
      ([], Inr \<lparr>success = False, token = None, error = Some (Str ''Username is required'')\<rparr>) \<and>
   validateCredentials \<lparr>username = ''12a45'', password = ''pw'', server = ''srv''\<rparr> =
      Some ''Username must be a valid account number (numeric)'' \<and>
   loginToMT5 (answers (text_response 200 ''a1b2c3d4e5f6''))
      \<lparr>username = ''12a45'', password = ''pw'', server = ''srv''\<rparr> =
      ([], Inr \<lparr>success = False, token = None,
          error = Some (Str ''Username must be a valid account number (numeric)'')\<rparr>)"
  using validateCredentials_order [of "\<lparr>username = ''   '', password = [], server = []\<rparr>"
      "answers (text_response 200 ''a1b2c3d4e5f6'')"]
    validateCredentials_order [of "\<lparr>username = ''12a45'', password = ''pw'', server = ''srv''\<rparr>"
      "answers (text_response 200 ''a1b2c3d4e5f6'')"]
  by (simp add: trim_def isWhiteSpace_def)

lemma short_body: "validateToken ''abc       ''" "trim ''abc       '' = ''abc''"
  by code_simp+

text \<open>
  C9. There is a status-200 body of at least 10 characters that the token validator
  accepts, for which login succeeds and returns the trimmed body as the token, a token of
  fewer than 10 characters that the validator itself rejects.
\<close>

theorem short_token_issued:
  "\<exists>body. 10 \<le> length body \<and> validateToken body \<and> length (trim body) < 10 \<and>
     \<not> validateToken (trim body) \<and>
     loginToMT5 (answers (text_response 200 body)) example_credentials =
       ([Fetch (login_request example_credentials)],
        Inr \<lparr>success = True, token = Some (trim body), error = None\<rparr>)"
proof (intro exI conjI)
  show "10 \<le> length ''abc       ''" by simp
  show "validateToken ''abc       ''" by (rule short_body)
  show "length (trim ''abc       '') < 10" by (simp add: short_body)
  show "\<not> validateToken (trim ''abc       '')" by (simp add: short_body validateToken_def)
  show "loginToMT5 (answers (text_response 200 ''abc       '')) example_credentials =
       ([Fetch (login_request example_credentials)],
        Inr \<lparr>success = True, token = Some (trim ''abc       ''), error = None\<rparr>)"
    using login_proceeds [OF example_credentials_valid,
        of "answers (text_response 200 ''abc       '')" "text_response 200 ''abc       ''"]
    by (simp add: answers_def text_response_def short_body)
qed

section \<open>Error messages of the login exchange\<close>

lemma string_of_status:
  "string_of_nat 500 = ''500''" "string_of_nat 201 = ''201''" "string_of_nat 404 = ''404''"
  by code_simp+

lemma handleApiError_empty_object:
  "handleApiError (json_response 500 ''{}'' (Obj [])) = Str ''API Error: 500''"
  by (simp add: handleApiError_def isJsonContent_def json_response_def js_or_def
      string_of_status)

text \<open>
  C5, as stated, fails: a status-500 response with a JSON content type and the body
  \<open>{}\<close> gives the message \<open>API Error: 500\<close>, not \<open>HTTP Error: 500\<close>.
\<close>

theorem api_error_fallback_counterexample:
  "status (json_response 500 ''{}'' (Obj [])) \<noteq> 200 \<and>
   isJsonContent (json_response 500 ''{}'' (Obj [])) \<and>
   snd (loginToMT5 (answers (json_response 500 ''{}'' (Obj []))) example_credentials) =
     Inr \<lparr>success = False, token = None, error = Some (Str ''API Error: 500'')\<rparr> \<and>
   snd (loginToMT5 (answers (json_response 500 ''{}'' (Obj []))) example_credentials) \<noteq>
     Inr \<lparr>success = False, token = None, error = Some (Str ''HTTP Error: 500'')\<rparr>"
  using login_proceeds [OF example_credentials_valid,
      of "answers (json_response 500 ''{}'' (Obj []))" "json_response 500 ''{}'' (Obj [])"]
  by (simp add: answers_def handleApiError_empty_object failure_def)
    (simp add: json_response_def isJsonContent_def)

text \<open>
  C5, amended. For a login response with a status other than 200, login returns a failure
  whose message is the result of \<open>handleApiError\<close>: with a JSON content type and a body
  that parses to an object, the \<open>message\<close> property if truthy, else the \<open>error\<close>
  property if truthy, else \<open>API Error: {status}\<close>; with another content type and a
  readable body, the raw text if not empty, else \<open>HTTP Error: {status}\<close>; and when the
  body cannot be read or parsed, or parses to \<open>null\<close>,
  \<open>Network Error: {status} {statusText}\<close>.
\<close>

theorem login_non_200:
  assumes "validateCredentials credentials = None"
    and "fetch (login_request credentials) = Inr r"
    and "status r \<noteq> 200"
  shows "snd (loginToMT5 fetch credentials) =
           Inr \<lparr>success = False, token = None, error = Some (handleApiError r)\<rparr> \<and>
         (isJsonContent r \<longrightarrow> (\<forall>ps. json_of r = Inr (Obj ps) \<longrightarrow>
            handleApiError r =
              (if truthy (opt_member (Obj ps) ''message'') then opt_member (Obj ps) ''message''
               else if truthy (opt_member (Obj ps) ''error'') then opt_member (Obj ps) ''error''
               else Str (''API Error: '' @ string_of_nat (status r))))) \<and>
         (\<not> isJsonContent r \<longrightarrow> (\<forall>t. text_of r = Inr t \<longrightarrow>
            handleApiError r =
              (if t \<noteq> [] then Str t else Str (''HTTP Error: '' @ string_of_nat (status r))))) \<and>
         ((isJsonContent r \<and> (json_of r = Inr Null \<or> (\<exists>e. json_of r = Inl e))) \<or>
          (\<not> isJsonContent r \<and> (\<exists>e. text_of r = Inl e)) \<longrightarrow>
            handleApiError r =
              Str (''Network Error: '' @ string_of_nat (status r) @ '' '' @ statusText r))"
  using assms
  by (auto simp: login_proceeds failure_def handleApiError_def opt_member_def js_or_def
      network_error_text_def)

theorem login_non_200_witness:
  "snd (loginToMT5 (answers (json_response 201 ''{\"message\":\"Server not found\"}''
          (Obj [(''message'', Str ''Server not found'')]))) example_credentials) =
     Inr \<lparr>success = False, token = None, error = Some (Str ''Server not found'')\<rparr> \<and>
   snd (loginToMT5 (answers (text_response 404 [])) example_credentials) =
     Inr \<lparr>success = False, token = None, error = Some (Str ''HTTP Error: 404'')\<rparr> \<and>
   snd (loginToMT5 (answers (json_response 500 ''null'' Null)) example_credentials) =
     Inr \<lparr>success = False, token = None, error = Some (Str ''Network Error: 500 '')\<rparr>"
  using login_non_200 [of example_credentials
      "answers (json_response 201 ''{\"message\":\"Server not found\"}''
          (Obj [(''message'', Str ''Server not found'')]))"
      "json_response 201 ''{\"message\":\"Server not found\"}''
          (Obj [(''message'', Str ''Server not found'')])"]
    login_non_200 [of example_credentials "answers (text_response 404 [])" "text_response 404 []"]
    login_non_200 [of example_credentials "answers (json_response 500 ''null'' Null)"
      "json_response 500 ''null'' Null"]
  by (simp add: example_credentials_valid answers_def)
    (simp add: json_response_def text_response_def isJsonContent_def opt_member_def
      string_of_status)

section \<open>Account snapshots\<close>

lemma nullish_defined: "defined d \<Longrightarrow> defined (nullish v d)"
  by (simp add: nullish_def defined_def)

lemma defined_simps: "defined (Num x)" "defined (Str z)"
  by (simp_all add: defined_def)

lemma combine_populated: "populated (combine sd dd)"
  by (simp add: populated_def combine_def defaultAccountInfo_def nullish_defined defined_simps)

lemma default_populated: "populated defaultAccountInfo"
  by (simp add: populated_def defaultAccountInfo_def defined_def)

lemma getAccountInfo_try_populated:
  "getAccountInfo_try fetch t = (effs, Inr a) \<Longrightarrow> populated a"
  by (auto simp: getAccountInfo_try_def Let_def combine_populated
      split: sum.splits if_splits prod.splits)

text \<open>
  C2. \<open>getAccountInfo\<close> always settles with a snapshot, never with a rejection, and the
  snapshot is fully populated. For an empty or whitespace-only token it is the all-defaults
  snapshot, and the only effect is the diagnostic (no request is issued). When the
  \<open>try\<close> block throws, it is the all-defaults snapshot too.
\<close>

theorem getAccountInfo_total:
  "(\<exists>effs a. getAccountInfo fetch t = (effs, Inr a) \<and> populated a) \<and>
   (trim t = [] \<longrightarrow>
      getAccountInfo fetch t =
        ([ConsoleError ''No authentication token provided''], Inr defaultAccountInfo)) \<and>
   (\<forall>effs e. getAccountInfo_try fetch t = (effs, Inl e) \<longrightarrow>
      snd (getAccountInfo fetch t) = Inr defaultAccountInfo)"
proof (intro conjI)
  show "\<exists>effs a. getAccountInfo fetch t = (effs, Inr a) \<and> populated a"
  proof (cases "trim t = []")
    case True
    then show ?thesis by (simp add: getAccountInfo_def default_populated)
  next
    case False
    obtain effs res where tr: "getAccountInfo_try fetch t = (effs, res)"
      by (cases "getAccountInfo_try fetch t")
    show ?thesis
    proof (cases res)
      case (Inl e)
      with tr False show ?thesis by (simp add: getAccountInfo_def default_populated)
    next
      case (Inr a)
      with tr have "populated a" by (simp add: getAccountInfo_try_populated)
      with tr Inr False show ?thesis by (simp add: getAccountInfo_def)
    qed
  qed
next
  show "trim t = [] \<longrightarrow>
      getAccountInfo fetch t =
        ([ConsoleError ''No authentication token provided''], Inr defaultAccountInfo)"
    by (simp add: getAccountInfo_def)
next
  show "\<forall>effs e. getAccountInfo_try fetch t = (effs, Inl e) \<longrightarrow>
      snd (getAccountInfo fetch t) = Inr defaultAccountInfo"
    by (auto simp: getAccountInfo_def)
qed

lemma getAccountInfo_try_unreachable:
  "getAccountInfo_try (unreachable e) t = ([Fetch (summary_request t), Fetch (details_request t)], Inl e)"
  by (simp add: getAccountInfo_try_def unreachable_def)

theorem getAccountInfo_total_witness:
  "trim ''   '' = [] \<and>
   getAccountInfo (unreachable (TypeError ''Failed to fetch'')) ''   '' =
     ([ConsoleError ''No authentication token provided''], Inr defaultAccountInfo) \<and>
   getAccountInfo_try (unreachable (TypeError ''Failed to fetch'')) ''a1b2c3d4e5f6'' =
     ([Fetch (summary_request ''a1b2c3d4e5f6''), Fetch (details_request ''a1b2c3d4e5f6'')],
      Inl (TypeError ''Failed to fetch'')) \<and>
   snd (getAccountInfo (unreachable (TypeError ''Failed to fetch'')) ''a1b2c3d4e5f6'') =
     Inr defaultAccountInfo"
  using getAccountInfo_total [of "unreachable (TypeError ''Failed to fetch'')" "''   ''"]
    getAccountInfo_total [of "unreachable (TypeError ''Failed to fetch'')" "''a1b2c3d4e5f6''"]
  by (simp add: getAccountInfo_try_unreachable) (simp add: trim_def isWhiteSpace_def)

lemma getAccountInfo_both:
  assumes "trim t \<noteq> []" "fetch (summary_request t) = Inr sr" "fetch (details_request t) = Inr dr"
  shows "snd (getAccountInfo fetch t) =
    Inr (combine (if ok sr then (case json_of sr of Inr d \<Rightarrow> d | Inl e \<Rightarrow> Obj []) else Obj [])
                 (if ok dr then (case json_of dr of Inr d \<Rightarrow> d | Inl e \<Rightarrow> Obj []) else Obj []))"
  using assms by (auto simp: getAccountInfo_def getAccountInfo_try_def split: sum.splits)

lemma provided_eq:
  "or_default (provided r k) dflt =
     nullish (opt_member (if ok r then (case json_of r of Inr d \<Rightarrow> d | Inl e \<Rightarrow> Obj []) else Obj []) k) dflt"
  by (auto simp: provided_def opt_member_def nullish_def or_default_def defined_def
      split: sum.splits jsval.splits option.splits)

text \<open>
  C3. When both requests are answered, each summary field of the snapshot
  (balance, equity, margin, freeMargin, marginLevel, currency, profit) is the value the
  summary response provides for it, else its fixed default, and each details field
  (accountNumber, accountName, serverName, leverage) is the value the details response
  provides for it, else its fixed default: no field is taken from the other source.
\<close>

theorem merge_field_by_field:
  assumes "trim t \<noteq> []"
    and "fetch (summary_request t) = Inr sr"
    and "fetch (details_request t) = Inr dr"
  shows "snd (getAccountInfo fetch t) =
     Inr \<lparr>balance = or_default (provided sr ''balance'') (Num 0),
          equity = or_default (provided sr ''equity'') (Num 0),
          margin = or_default (provided sr ''margin'') (Num 0),
          freeMargin = or_default (provided sr ''freeMargin'') (Num 0),
          marginLevel = or_default (provided sr ''marginLevel'') (Num 0),
          currency = or_default (provided sr ''currency'') (Str ''USD''),
          accountNumber = or_default (provided dr ''accountNumber'') (Str ''N/A''),
          accountName = or_default (provided dr ''accountName'') (Str ''N/A''),
          serverName = or_default (provided dr ''serverName'') (Str ''N/A''),
          leverage = or_default (provided dr ''leverage'') (Num 0),
          profit = or_default (provided sr ''profit'') (Num 0)\<rparr>"
  unfolding getAccountInfo_both [OF assms] provided_eq
  by (simp add: combine_def defaultAccountInfo_def)

lemma trim_token: "trim ''a1b2c3d4e5f6'' \<noteq> []" by (simp add: trim_def isWhiteSpace_def)

lemma summary_down_simps:
  "summary_down (summary_request t) = Inr (text_response 500 ''Internal Server Error'')"
  "summary_down (details_request t) = Inr (json_response 200 ''{\"accountNumber\":\"12345\"}''
                    (Obj [(''accountNumber'', Str ''12345'')]))"
  by (simp_all add: summary_down_def route_def summary_request_def details_request_def MT5_API_BASE_def)

lemma provided_examples:
  "provided (text_response 500 ''Internal Server Error'') k = None"
  "provided (json_response 200 ''{\"accountNumber\":\"12345\"}'' (Obj [(''accountNumber'', Str ''12345'')])) ''accountNumber'' = Some (Str ''12345'')"
  "provided (json_response 200 ''{\"accountNumber\":\"12345\"}'' (Obj [(''accountNumber'', Str ''12345'')])) ''accountName'' = None"
  "provided (json_response 200 ''{\"accountNumber\":\"12345\"}'' (Obj [(''accountNumber'', Str ''12345'')])) ''serverName'' = None"
  "provided (json_response 200 ''{\"accountNumber\":\"12345\"}'' (Obj [(''accountNumber'', Str ''12345'')])) ''leverage'' = None"
  by (simp_all add: provided_def text_response_def json_response_def ok_def defined_def)

theorem merge_field_by_field_witness:
  "snd (getAccountInfo summary_down ''a1b2c3d4e5f6'') =
     Inr \<lparr>balance = Num 0, equity = Num 0, margin = Num 0, freeMargin = Num 0,
          marginLevel = Num 0, currency = Str ''USD'', accountNumber = Str ''12345'',
          accountName = Str ''N/A'', serverName = Str ''N/A'', leverage = Num 0,
          profit = Num 0\<rparr>"
  using merge_field_by_field [OF trim_token summary_down_simps(1) summary_down_simps(2)]
  by (simp add: provided_examples or_default_def)

text \<open>
  C10. When either of the two requests is rejected by the transport, \<open>getAccountInfo\<close>
  returns the all-defaults snapshot after the handler's diagnostic, whatever the other
  request returned.
\<close>

theorem transport_failure_discards:
  assumes "trim t \<noteq> []"
    and "(\<exists>e. fetch (summary_request t) = Inl e) \<or> (\<exists>e. fetch (details_request t) = Inl e)"
  shows "getAccountInfo fetch t =
     ([Fetch (summary_request t), Fetch (details_request t),
       ConsoleError ''Error fetching account information:''], Inr defaultAccountInfo)"
proof -
  have "\<exists>e. getAccountInfo_try fetch t =
          ([Fetch (summary_request t), Fetch (details_request t)], Inl e)"
  proof (cases "fetch (summary_request t)")
    case (Inl e)
    then show ?thesis by (simp add: getAccountInfo_try_def)
  next
    case (Inr sr)
    with assms(2) obtain e where "fetch (details_request t) = Inl e" by auto
    with Inr show ?thesis by (simp add: getAccountInfo_try_def)
  qed
  with assms(1) show ?thesis by (auto simp: getAccountInfo_def)
qed

lemma summary_unreachable_simps:
  "summary_unreachable (summary_request t) = Inl (TypeError ''Failed to fetch'')"
  "summary_unreachable (details_request t) = Inr (json_response 200 ''{\"accountNumber\":\"12345\"}''
                    (Obj [(''accountNumber'', Str ''12345'')]))"
  by (simp_all add: summary_unreachable_def route_def summary_request_def details_request_def MT5_API_BASE_def)

theorem transport_failure_discards_witness:
  "summary_unreachable (details_request ''a1b2c3d4e5f6'') =
     Inr (json_response 200 ''{\"accountNumber\":\"12345\"}''
            (Obj [(''accountNumber'', Str ''12345'')])) \<and>
   getAccountInfo summary_unreachable ''a1b2c3d4e5f6'' =
     ([Fetch (summary_request ''a1b2c3d4e5f6''), Fetch (details_request ''a1b2c3d4e5f6''),
       ConsoleError ''Error fetching account information:''], Inr defaultAccountInfo) \<and>
   accountNumber defaultAccountInfo = Str ''N/A''"
  using transport_failure_discards [of "''a1b2c3d4e5f6''" summary_unreachable]
  by (simp add: trim_token summary_unreachable_simps defaultAccountInfo_def)

section \<open>The polling scheduler\<close>



lemma gone_step: "gone s \<Longrightarrow> gone (step e s) \<and> observable (step e s) = observable s"
  by (cases e)
    (auto simp: gone_def observable_def interval_callback_def fetchAccountInfo_resume_def
      mount_cleanup_def visibility_cleanup_def stopRealTimeUpdates_def
      split: option.splits sum.splits)

lemma gone_run: "gone s \<Longrightarrow> gone (run es s) \<and> observable (run es s) = observable s"
proof (induction es arbitrary: s)
  case Nil
  then show ?case by simp
next
  case (Cons e es)
  from Cons.prems have "gone (step e s)" and "observable (step e s) = observable s"
    using gone_step by blast+
  with Cons.IH [of "step e s"] show ?case by simp
qed

lemma gone_Unmount: "gone (step Unmount s)"
  by (simp add: gone_def mount_cleanup_def visibility_cleanup_def stopRealTimeUpdates_def)

lemma observable_Unmount: "observable (step Unmount s) = observable s"
  by (simp add: observable_def mount_cleanup_def visibility_cleanup_def stopRealTimeUpdates_def)

lemma after_Unmount: "observable (run es (step Unmount s)) = observable s"
proof -
  have "observable (run es (step Unmount s)) = observable (step Unmount s)"
    using gone_run [OF gone_Unmount] by blast
  also have "\<dots> = observable s"
    by (rule observable_Unmount)
  finally show ?thesis .
qed

text \<open>
  C6. Once the component is unmounted, nothing that happens afterwards changes the
  observable state (snapshot, lastUpdated, connected, updateCount, loading and active
  flags, publications): in particular not the settling of a fetch that was in flight at
  the unmount. When the unmount comes right after the mount, the initial fetch is still
  in flight, and its later settling changes nothing.
\<close>

theorem no_publication_after_unmount:
  "observable (run es (step Unmount s)) = observable s \<and>
   in_flight (step Unmount (mount t0)) = [(0, True)] \<and>
   observable (run [Unmount, Settled 0 outcome now] (mount t0)) = observable (mount t0)"
proof (intro conjI)
  show "observable (run es (step Unmount s)) = observable s"
    by (rule after_Unmount)
next
  show "in_flight (step Unmount (mount t0)) = [(0, True)]"
    by (simp add: mount_def visibility_effect_def mount_effect_def first_render_def
        fetchAccountInfo_call_def startRealTimeUpdates_def mount_cleanup_def
        visibility_cleanup_def stopRealTimeUpdates_def)
next
  have "run [Unmount, Settled 0 outcome now] (mount t0) =
        run [Settled 0 outcome now] (step Unmount (mount t0))"
    by (simp only: run.simps)
  then show "observable (run [Unmount, Settled 0 outcome now] (mount t0)) =
      observable (mount t0)"
    by (simp only: after_Unmount)
qed

lemma alive_mount: "alive (mount t0)"
  by (simp add: alive_def mount_def visibility_effect_def mount_effect_def first_render_def
      fetchAccountInfo_call_def startRealTimeUpdates_def Let_def)

lemma unmounted_step: "unmounted s \<Longrightarrow> unmounted (step e s)"
  by (cases e)
    (auto simp: interval_callback_def fetchAccountInfo_resume_def fetchAccountInfo_call_def
      handleVisibilityChange_def stopRealTimeUpdates_def startRealTimeUpdates_def Let_def
      split: option.splits sum.splits)

lemma alive_step: "alive s \<Longrightarrow> unmounted (step e s) \<or> alive (step e s)"
  by (cases e)
    (auto simp: alive_def interval_callback_def fetchAccountInfo_resume_def fetchAccountInfo_call_def
      handleVisibilityChange_def stopRealTimeUpdates_def startRealTimeUpdates_def Let_def
      toggleRealTime_def rerender_def mount_effect_def mount_cleanup_def visibility_effect_def visibility_cleanup_def
      split: option.splits sum.splits)


lemma reachable_alive:
  "unmounted s \<or> alive s \<Longrightarrow> unmounted (run es s) \<or> alive (run es s)"
proof (induction es arbitrary: s)
  case Nil
  then show ?case by simp
next
  case (Cons e es)
  from Cons.prems have "unmounted (step e s) \<or> alive (step e s)"
    using unmounted_step alive_step by blast
  then show ?case using Cons.IH by simp
qed

lemma mounted_alive: "\<not> unmounted (run es (mount t0)) \<Longrightarrow> alive (run es (mount t0))"
  using reachable_alive [of "mount t0" es] alive_mount by blast

lemma publish_when_mounted:
  assumes "mountedRef s" "map_of (in_flight s) n = Some showLoading"
  shows "accountInfo (step (Settled n (Inr info) now) s) = Some info \<and>
         lastUpdated (step (Settled n (Inr info) now) s) = now \<and>
         isConnected (step (Settled n (Inr info) now) s) \<and>
         updateCount (step (Settled n (Inr info) now) s) = updateCount s + 1 \<and>
         published (step (Settled n (Inr info) now) s) = published s @ [n]"
  using assms by (simp add: fetchAccountInfo_resume_def Let_def)

lemma two_in_flight:
  "run [Tick] (mount 0) =
     \<lparr>accountInfo = None, isLoading = True, lastUpdated = 0, isConnected = True,
      updateCount = 0, isRealTimeActive = True,
      intervalRef = Some \<lparr>delay = 1000, timer_isRealTimeActive = True\<rparr>,
      mountedRef = True, listener = Some True, in_flight = [(0, True), (1, False)],
      initiated = 2, published = [], unmounted = False\<rparr>"
  by (simp add: mount_def visibility_effect_def mount_effect_def first_render_def
      fetchAccountInfo_call_def startRealTimeUpdates_def interval_callback_def)

lemma run_append: "run (es @ es') s = run es' (run es s)"
  by (induction es arbitrary: s) simp_all

lemma newer_first:
  "run [Tick, Settled 1 (Inr newer_snapshot) 2000] (mount 0) =
     \<lparr>accountInfo = Some newer_snapshot, isLoading = True, lastUpdated = 2000,
      isConnected = True, updateCount = 1, isRealTimeActive = True,
      intervalRef = Some \<lparr>delay = 1000, timer_isRealTimeActive = True\<rparr>,
      mountedRef = True, listener = Some True, in_flight = [(0, True)],
      initiated = 2, published = [1], unmounted = False\<rparr>"
  using two_in_flight by (simp add: fetchAccountInfo_resume_def Let_def)

text \<open>
  C7, as stated, fails: the initial fetch (number 0) is still in flight when the first
  tick starts fetch number 1; fetch 1 settles first and is published, then fetch 0
  settles and is published over it.
\<close>

theorem stale_result_published_counterexample:
  "published (run [Tick, Settled 1 (Inr newer_snapshot) 2000,
                   Settled 0 (Inr older_snapshot) 3000] (mount 0)) = [1, 0] \<and>
   \<not> sorted (published (run [Tick, Settled 1 (Inr newer_snapshot) 2000,
                   Settled 0 (Inr older_snapshot) 3000] (mount 0))) \<and>
   accountInfo (run [Tick, Settled 1 (Inr newer_snapshot) 2000] (mount 0)) =
     Some newer_snapshot \<and>
   accountInfo (run [Tick, Settled 1 (Inr newer_snapshot) 2000,
                   Settled 0 (Inr older_snapshot) 3000] (mount 0)) = Some older_snapshot"
proof -
  have "run [Tick, Settled 1 (Inr newer_snapshot) 2000,
             Settled 0 (Inr older_snapshot) 3000] (mount 0) =
        step (Settled 0 (Inr older_snapshot) 3000)
          (run [Tick, Settled 1 (Inr newer_snapshot) 2000] (mount 0))"
    using run_append [of "[Tick, Settled 1 (Inr newer_snapshot) 2000]"
        "[Settled 0 (Inr older_snapshot) 3000]" "mount 0"] by simp
  then show ?thesis
    unfolding newer_first by (simp add: fetchAccountInfo_resume_def Let_def)
qed

text \<open>
  C7, amended. Results are published in the order in which the fetches settle: while the
  component is mounted, the snapshot of every fetch that settles is published (snapshot,
  lastUpdated, connected, updateCount), whatever has been published before it.
\<close>

theorem results_published_as_they_settle:
  assumes "s = run es (mount t0)"
    and "\<not> unmounted s"
    and "map_of (in_flight s) n = Some showLoading"
  shows "accountInfo (step (Settled n (Inr info) now) s) = Some info \<and>
         lastUpdated (step (Settled n (Inr info) now) s) = now \<and>
         isConnected (step (Settled n (Inr info) now) s) \<and>
         updateCount (step (Settled n (Inr info) now) s) = updateCount s + 1 \<and>
         published (step (Settled n (Inr info) now) s) = published s @ [n]"
proof -
  from assms(1,2) have "alive s" by (simp add: mounted_alive)
  then have "mountedRef s" by (simp add: alive_def)
  then show ?thesis using assms(3) by (rule publish_when_mounted)
qed

theorem results_published_as_they_settle_witness:
  "published (run [Tick, Settled 1 (Inr newer_snapshot) 2000] (mount 0)) = [1] \<and>
   published (step (Settled 0 (Inr older_snapshot) 3000)
     (run [Tick, Settled 1 (Inr newer_snapshot) 2000] (mount 0))) = [1, 0] \<and>
   accountInfo (step (Settled 0 (Inr older_snapshot) 3000)
     (run [Tick, Settled 1 (Inr newer_snapshot) 2000] (mount 0))) = Some older_snapshot \<and>
   updateCount (step (Settled 0 (Inr older_snapshot) 3000)
     (run [Tick, Settled 1 (Inr newer_snapshot) 2000] (mount 0))) = 2"
  using results_published_as_they_settle [of
      "run [Tick, Settled 1 (Inr newer_snapshot) 2000] (mount 0)"
      "[Tick, Settled 1 (Inr newer_snapshot) 2000]" 0 0 True older_snapshot 3000]
  unfolding newer_first by simp

text \<open>
  C8. In every state a mounted component can reach: a visibility-hidden event clears the
  interval and leaves \<open>isRealTimeActive\<close> as it is; a visibility-visible event
  leaves \<open>isRealTimeActive\<close> as it is and arms the 1000 ms interval exactly when
  \<open>isRealTimeActive\<close> is true; and after hidden then visible the flag is unchanged
  and, when it is true, the next tick starts a background fetch.
\<close>

theorem visibility_keeps_active_flag:
  assumes "s = run es (mount t0)" and "\<not> unmounted s"
  shows "isRealTimeActive (step (VisibilityChange True) s) = isRealTimeActive s \<and>
         intervalRef (step (VisibilityChange True) s) = None \<and>
         isRealTimeActive (step (VisibilityChange False) s) = isRealTimeActive s \<and>
         (intervalRef (step (VisibilityChange False) s) =
            Some \<lparr>delay = 1000, timer_isRealTimeActive = True\<rparr>) = isRealTimeActive s \<and>
         (intervalRef (step (VisibilityChange False) s) = None) = (\<not> isRealTimeActive s) \<and>
         isRealTimeActive (run [VisibilityChange True, VisibilityChange False] s) =
           isRealTimeActive s \<and>
         intervalRef (run [VisibilityChange True, VisibilityChange False] s) =
           (if isRealTimeActive s
            then Some \<lparr>delay = 1000, timer_isRealTimeActive = True\<rparr> else None) \<and>
         in_flight (run [VisibilityChange True, VisibilityChange False, Tick] s) =
           (if isRealTimeActive s then in_flight s @ [(initiated s, False)] else in_flight s)"
proof -
  from assms have "alive s" by (simp add: mounted_alive)
  then show ?thesis
    by (auto simp: alive_def handleVisibilityChange_def stopRealTimeUpdates_def
        startRealTimeUpdates_def interval_callback_def fetchAccountInfo_call_def)
qed

lemma mounted_state:
  "run [] (mount 0) =
     \<lparr>accountInfo = None, isLoading = True, lastUpdated = 0, isConnected = True,
      updateCount = 0, isRealTimeActive = True,
      intervalRef = Some \<lparr>delay = 1000, timer_isRealTimeActive = True\<rparr>,
      mountedRef = True, listener = Some True, in_flight = [(0, True)],
      initiated = 1, published = [], unmounted = False\<rparr>"
  by (simp add: mount_def visibility_effect_def mount_effect_def first_render_def
      fetchAccountInfo_call_def startRealTimeUpdates_def)

theorem visibility_keeps_active_flag_witness:
  "isRealTimeActive (run [] (mount 0)) \<and>
   isRealTimeActive (step (VisibilityChange True) (run [] (mount 0))) \<and>
   intervalRef (step (VisibilityChange True) (run [] (mount 0))) = None \<and>
   isRealTimeActive (run [VisibilityChange True, VisibilityChange False] (run [] (mount 0))) \<and>
   intervalRef (run [VisibilityChange True, VisibilityChange False] (run [] (mount 0))) =
     Some \<lparr>delay = 1000, timer_isRealTimeActive = True\<rparr> \<and>
   in_flight (run [VisibilityChange True, VisibilityChange False, Tick] (run [] (mount 0))) =
     [(0, True), (1, False)]"
  using visibility_keeps_active_flag [of "run [] (mount 0)" "[]" 0]
  unfolding mounted_state by simp

text \<open>Clearing the interval alone, with the component still mounted, drops nothing.\<close>

lemma stop_without_unmount_publishes:
  "updateCount (run [VisibilityChange True, Settled 0 (Inr newer_snapshot) 2000] (run [] (mount 0))) = 1"
  unfolding mounted_state
  by (simp add: handleVisibilityChange_def stopRealTimeUpdates_def fetchAccountInfo_resume_def Let_def)

end
